theory Spec2Isabelle
  imports Complex_Main
begin

section \<open>The number type of the calculation module\<close>

text \<open>
  Every quantity of \<^verbatim>\<open>beamCalculations.ts\<close> is a TypeScript \<^verbatim>\<open>number\<close>. The model keeps
  the special values that the arithmetic of the module can produce and that its comparisons
  treat specially: the two infinities, not-a-number and the negative zero (the sign of a
  zero divisor decides the sign of the infinity). \<open>Fin 0\<close> is the positive zero.
  A finite result is the exact real result: rounding to 53 bits, overflow of a finite
  result to an infinity and underflow to zero are not part of the model. Overflow and
  underflow change the class of a value, so no theorem below says that a product or a
  quotient of arbitrary finite numbers is finite or nonzero: the general statements are
  either identities between expressions built from the same operations, or rest on the
  special-value rules alone, or take the sign of a computed product as a hypothesis. Exact
  values appear only on bounded ranges and at the example inputs, far from either limit.
\<close>

datatype number = Fin real | NegZero | PosInf | NegInf | NaN

fun is_nan :: "number \<Rightarrow> bool" where
  "is_nan NaN = True"
| "is_nan _ = False"

fun is_inf :: "number \<Rightarrow> bool" where
  "is_inf PosInf = True"
| "is_inf NegInf = True"
| "is_inf _ = False"

fun is_zero :: "number \<Rightarrow> bool" where
  "is_zero (Fin x) = (x = 0)"
| "is_zero NegZero = True"
| "is_zero _ = False"

text \<open>\<open>Number.isFinite\<close>: neither an infinity nor not-a-number.\<close>

fun is_finite :: "number \<Rightarrow> bool" where
  "is_finite (Fin x) = True"
| "is_finite NegZero = True"
| "is_finite _ = False"

text \<open>The sign bit: \<open>True\<close> for a negative number, the negative zero and \<open>-Infinity\<close>.\<close>

fun sign_bit :: "number \<Rightarrow> bool" where
  "sign_bit (Fin x) = (x < 0)"
| "sign_bit NegZero = True"
| "sign_bit PosInf = False"
| "sign_bit NegInf = True"
| "sign_bit NaN = False"

text \<open>The real value of a finite number (both zeros are \<open>0\<close>).\<close>

fun val :: "number \<Rightarrow> real" where
  "val (Fin x) = x"
| "val _ = 0"

definition zero_of :: "bool \<Rightarrow> number" where
  "zero_of s = (if s then NegZero else Fin 0)"

definition inf_of :: "bool \<Rightarrow> number" where
  "inf_of s = (if s then NegInf else PosInf)"

subsection \<open>Arithmetic\<close>

text \<open>\<open>x * y\<close>: not-a-number propagates, \<open>0 * Infinity\<close> is not-a-number, the sign of a
  zero or infinite product is the exclusive or of the signs. The product of two finite
  numbers is the exact real product: where the double product overflows to an infinity or
  underflows to a zero, the model differs from the program.\<close>

definition jsmul :: "number \<Rightarrow> number \<Rightarrow> number" where
  "jsmul x y =
     (if is_nan x \<or> is_nan y then NaN
      else if is_inf x \<or> is_inf y then
        (if is_zero x \<or> is_zero y then NaN else inf_of (sign_bit x \<noteq> sign_bit y))
      else if val x * val y = 0 then zero_of (sign_bit x \<noteq> sign_bit y)
      else Fin (val x * val y))"

text \<open>\<open>x / y\<close>: \<open>0 / 0\<close> and \<open>Infinity / Infinity\<close> are not-a-number, a nonzero number
  divided by a zero is an infinity; nothing is raised. The quotient of two finite nonzero
  numbers is the exact real quotient, with the same limit as the product.\<close>

definition jsdiv :: "number \<Rightarrow> number \<Rightarrow> number" where
  "jsdiv x y =
     (if is_nan x \<or> is_nan y then NaN
      else if is_inf x then
        (if is_inf y then NaN else inf_of (sign_bit x \<noteq> sign_bit y))
      else if is_inf y then zero_of (sign_bit x \<noteq> sign_bit y)
      else if is_zero y then
        (if is_zero x then NaN else inf_of (sign_bit x \<noteq> sign_bit y))
      else if is_zero x then zero_of (sign_bit x \<noteq> sign_bit y)
      else Fin (val x / val y))"

text \<open>\<open>x + y\<close>: \<open>Infinity + -Infinity\<close> is not-a-number; a zero sum is the positive zero
  unless both summands are the negative zero.\<close>

definition jsadd :: "number \<Rightarrow> number \<Rightarrow> number" where
  "jsadd x y =
     (if is_nan x \<or> is_nan y then NaN
      else if is_inf x then (if is_inf y \<and> sign_bit x \<noteq> sign_bit y then NaN else x)
      else if is_inf y then y
      else if x = NegZero \<and> y = NegZero then NegZero
      else Fin (val x + val y))"

fun jsneg :: "number \<Rightarrow> number" where
  "jsneg (Fin x) = (if x = 0 then NegZero else Fin (- x))"
| "jsneg NegZero = Fin 0"
| "jsneg PosInf = NegInf"
| "jsneg NegInf = PosInf"
| "jsneg NaN = NaN"

text \<open>\<open>x - y\<close> is \<open>x + (-y)\<close>.\<close>

definition jssub :: "number \<Rightarrow> number \<Rightarrow> number" where
  "jssub x y = jsadd x (jsneg y)"

subsection \<open>Comparisons\<close>

text \<open>A comparison with not-a-number is false; the two zeros compare equal.\<close>

definition jslt :: "number \<Rightarrow> number \<Rightarrow> bool" where
  "jslt x y =
     (if is_nan x \<or> is_nan y then False
      else if x = NegInf then y \<noteq> NegInf
      else if y = PosInf then x \<noteq> PosInf
      else if x = PosInf \<or> y = NegInf then False
      else val x < val y)"

definition jsle :: "number \<Rightarrow> number \<Rightarrow> bool" where
  "jsle x y =
     (if is_nan x \<or> is_nan y then False
      else if x = NegInf \<or> y = PosInf then True
      else if x = PosInf \<or> y = NegInf then False
      else val x \<le> val y)"

definition jsgt :: "number \<Rightarrow> number \<Rightarrow> bool" where
  "jsgt x y = jslt y x"

definition jsge :: "number \<Rightarrow> number \<Rightarrow> bool" where
  "jsge x y = jsle y x"

subsection \<open>\<open>Math.sqrt\<close> and \<open>Math.max\<close>\<close>

fun jssqrt :: "number \<Rightarrow> number" where
  "jssqrt (Fin x) = (if x < 0 then NaN else Fin (sqrt x))"
| "jssqrt NegZero = NegZero"
| "jssqrt PosInf = PosInf"
| "jssqrt NegInf = NaN"
| "jssqrt NaN = NaN"

text \<open>\<open>Math.max\<close> of two numbers: not-a-number if either is; the positive zero is the
  larger zero.\<close>

definition jsmax :: "number \<Rightarrow> number \<Rightarrow> number" where
  "jsmax x y =
     (if is_nan x \<or> is_nan y then NaN
      else if jslt x y then y
      else if jslt y x then x
      else if x = NegZero then y
      else x)"

section \<open>The calculation module \<^verbatim>\<open>src/utils/beamCalculations.ts\<close>\<close>

definition BETA1_FC_4000 :: number where
  "BETA1_FC_4000 = Fin 0.85"

definition BETA1_FC_8000 :: number where
  "BETA1_FC_8000 = Fin 0.65"

definition EPSILON_C_MAX :: number where
  "EPSILON_C_MAX = Fin 0.003"

definition EPSILON_Y_MIN :: number where
  "EPSILON_Y_MIN = Fin 0.005"

definition calculateBeta1 :: "number \<Rightarrow> number" where
  "calculateBeta1 fc =
     (if jsle fc (Fin 4000) then BETA1_FC_4000
      else if jsge fc (Fin 8000) then BETA1_FC_8000
      else jssub BETA1_FC_4000
             (jsmul (jsdiv (jssub fc (Fin 4000)) (Fin 4000))
                    (jssub BETA1_FC_4000 BETA1_FC_8000)))"

definition calculateRhoMin :: "number \<Rightarrow> number \<Rightarrow> number" where
  "calculateRhoMin fc fy =
     (let rhoMin1 = jsdiv (jsmul (Fin 3) (jssqrt fc)) fy;
          rhoMin2 = jsdiv (Fin 200) fy
      in jsmax rhoMin1 rhoMin2)"

definition calculateRhoBalanced :: "number \<Rightarrow> number \<Rightarrow> number" where
  "calculateRhoBalanced fc fy =
     (let beta1 = calculateBeta1 fc;
          epsilonY = jsdiv fy (Fin 29000000)
      in jsmul (jsdiv (jsmul (jsmul (Fin 0.85) fc) beta1) fy)
               (jsdiv EPSILON_C_MAX (jsadd EPSILON_C_MAX epsilonY)))"

definition calculateRhoMax :: "number \<Rightarrow> number \<Rightarrow> number" where
  "calculateRhoMax fc fy = jsmul (Fin 0.75) (calculateRhoBalanced fc fy)"

definition calculatePhi :: "number \<Rightarrow> number" where
  "calculatePhi epsilonT =
     (if jsge epsilonT EPSILON_Y_MIN then Fin 0.9
      else if jsle epsilonT (Fin 0.002) then Fin 0.65
      else jsadd (Fin 0.65)
             (jsmul (jsdiv (jssub epsilonT (Fin 0.002)) (jssub EPSILON_Y_MIN (Fin 0.002)))
                    (jssub (Fin 0.9) (Fin 0.65))))"

record BeamInput =
  b :: number
  h :: number
  d :: number
  fc :: number
  fy :: number
  As :: number
  numBars :: number

record BeamResults =
  rho :: number
  rhoMin :: number
  rhoMax :: number
  rhoBalanced :: number
  a :: number
  c :: number
  Mn :: number
  phiMn :: number
  phi :: number
  isUnderReinforced :: bool
  meetsMinSteel :: bool
  isValid :: bool
  epsilonT :: number
  epsilonC :: number

definition calculateBeamStrength :: "BeamInput \<Rightarrow> BeamResults" where
  "calculateBeamStrength input =
     (let b = b input; h = h input; d = d input;
          fc = fc input; fy = fy input; As = As input;
          rho = jsdiv As (jsmul b d);
          rhoMin = calculateRhoMin fc fy;
          rhoBalanced = calculateRhoBalanced fc fy;
          rhoMax = calculateRhoMax fc fy;
          a = jsdiv (jsmul As fy) (jsmul (jsmul (Fin 0.85) fc) b);
          beta1 = calculateBeta1 fc;
          c = jsdiv a beta1;
          epsilonC = EPSILON_C_MAX;
          epsilonT = jsdiv (jsmul epsilonC (jssub d c)) c;
          phi = calculatePhi epsilonT;
          MnInchKips = jsmul (jsmul As fy) (jssub d (jsdiv a (Fin 2)));
          Mn = jsdiv MnInchKips (Fin 12);
          phiMn = jsmul phi Mn;
          isUnderReinforced = jsle rho rhoMax;
          meetsMinSteel = jsge rho rhoMin;
          isValid = (isUnderReinforced \<and> meetsMinSteel \<and> jslt d h \<and> jsgt As (Fin 0))
      in \<lparr> rho = rho, rhoMin = rhoMin, rhoMax = rhoMax, rhoBalanced = rhoBalanced,
           a = a, c = c, Mn = Mn, phiMn = phiMn, phi = phi,
           isUnderReinforced = isUnderReinforced, meetsMinSteel = meetsMinSteel,
           isValid = isValid, epsilonT = epsilonT, epsilonC = epsilonC \<rparr>)"

text \<open>
  The bar table is an object with the eleven keys below; \<open>barAreas[barSize]\<close> finds a
  value exactly when \<open>barSize\<close> is one of these eleven numbers (a key is the decimal
  string of the number), and \<open>|| 0\<close> replaces a missing or falsy value by \<open>0\<close>.
\<close>

definition barAreas :: "(number \<times> number) list" where
  "barAreas =
     [(Fin 3, Fin 0.11), (Fin 4, Fin 0.20), (Fin 5, Fin 0.31), (Fin 6, Fin 0.44),
      (Fin 7, Fin 0.60), (Fin 8, Fin 0.79), (Fin 9, Fin 1.00), (Fin 10, Fin 1.27),
      (Fin 11, Fin 1.56), (Fin 14, Fin 2.25), (Fin 18, Fin 4.00)]"

text \<open>A number is falsy when it is a zero or not-a-number.\<close>

definition falsy :: "number \<Rightarrow> bool" where
  "falsy x = (is_zero x \<or> is_nan x)"

definition getBarArea :: "number \<Rightarrow> number" where
  "getBarArea barSize =
     (case map_of barAreas barSize of
        None \<Rightarrow> Fin 0
      | Some v \<Rightarrow> if falsy v then Fin 0 else v)"

definition getAvailableBarSizes :: "number list" where
  "getAvailableBarSizes =
     [Fin 3, Fin 4, Fin 5, Fin 6, Fin 7, Fin 8, Fin 9, Fin 10, Fin 11, Fin 14, Fin 18]"

section \<open>The rules as the specification words them\<close>

text \<open>
  The specification gives the two piecewise rules with literal constants. They are
  written here from its words, over the same arithmetic, and compared with the functions of
  the module below.
\<close>

definition spec_resolveBeta1 :: "number \<Rightarrow> number" where
  "spec_resolveBeta1 x =
     (if jsle x (Fin 4000) then Fin 0.85
      else if jsge x (Fin 8000) then Fin 0.65
      else jssub (Fin 0.85) (jsmul (jsdiv (jssub x (Fin 4000)) (Fin 4000)) (Fin 0.20)))"

definition spec_resolvePhi :: "number \<Rightarrow> number" where
  "spec_resolvePhi e =
     (if jsge e (Fin 0.005) then Fin 0.90
      else if jsle e (Fin 0.002) then Fin 0.65
      else jsadd (Fin 0.65)
             (jsmul (jsdiv (jssub e (Fin 0.002)) (jssub (Fin 0.005) (Fin 0.002)))
                    (jssub (Fin 0.90) (Fin 0.65))))"

text \<open>The beta1 rule on the reals.\<close>

definition beta1_real :: "real \<Rightarrow> real" where
  "beta1_real x =
     (if x \<le> 4000 then 0.85 else if x \<ge> 8000 then 0.65
      else 0.85 - ((x - 4000) / 4000) * 0.20)"

section \<open>Inputs used as examples\<close>

text \<open>The default section of the application: 12 by 24 in, four #8 bars.\<close>

definition scenario1 :: BeamInput where
  "scenario1 = \<lparr> b = Fin 12, h = Fin 24, d = Fin 21.5, fc = Fin 4000, fy = Fin 60000,
                  As = Fin 3.16, numBars = Fin 4 \<rparr>"

text \<open>The same section with a concrete strength of zero, as the input form produces for an
  empty field.\<close>

definition zeroStrength :: BeamInput where
  "zeroStrength = \<lparr> b = Fin 12, h = Fin 24, d = Fin 21.5, fc = Fin 0, fy = Fin 60000,
                     As = Fin 3.16, numBars = Fin 4 \<rparr>"

text \<open>The same section with a width of zero.\<close>

definition zeroWidth :: BeamInput where
  "zeroWidth = \<lparr> b = Fin 0, h = Fin 24, d = Fin 21.5, fc = Fin 4000, fy = Fin 60000,
                  As = Fin 3.16, numBars = Fin 4 \<rparr>"

text \<open>The same section without steel: an unrecognised bar size has area zero.\<close>

definition noSteel :: BeamInput where
  "noSteel = \<lparr> b = Fin 12, h = Fin 24, d = Fin 21.5, fc = Fin 4000, fy = Fin 60000,
                As = Fin 0, numBars = Fin 4 \<rparr>"

text \<open>Sections without steel whose yield strength, or effective depth, is \<open>Infinity\<close>.\<close>

definition unboundedYield :: BeamInput where
  "unboundedYield = \<lparr> b = Fin 12, h = Fin 24, d = Fin 21.5, fc = Fin 4000, fy = PosInf,
                       As = Fin 0, numBars = Fin 4 \<rparr>"

definition unboundedDepth :: BeamInput where
  "unboundedDepth = \<lparr> b = Fin 12, h = Fin 24, d = PosInf, fc = Fin 4000, fy = Fin 60000,
                       As = Fin 0, numBars = Fin 4 \<rparr>"

section \<open>Evaluation rules\<close>

lemma jsmul_Fin:
  "jsmul (Fin x) (Fin y) = (if x * y = 0 then zero_of ((x < 0) \<noteq> (y < 0)) else Fin (x * y))"
  by (simp add: jsmul_def)

lemma jsdiv_Fin:
  "y \<noteq> 0 \<Longrightarrow>
   jsdiv (Fin x) (Fin y) = (if x = 0 then zero_of (y < 0) else Fin (x / y))"
  by (simp add: jsdiv_def)

lemma jsadd_Fin: "jsadd (Fin x) (Fin y) = Fin (x + y)"
  by (simp add: jsadd_def)

lemma jssub_Fin: "jssub (Fin x) (Fin y) = Fin (x - y)"
  by (simp add: jssub_def jsadd_def)

lemma jsle_Fin: "jsle (Fin x) (Fin y) = (x \<le> y)"
  by (simp add: jsle_def)

lemma jslt_Fin: "jslt (Fin x) (Fin y) = (x < y)"
  by (simp add: jslt_def)

lemma jsge_Fin: "jsge (Fin x) (Fin y) = (y \<le> x)"
  by (simp add: jsge_def jsle_def)

lemma jsgt_Fin: "jsgt (Fin x) (Fin y) = (y < x)"
  by (simp add: jsgt_def jslt_def)

lemmas js_Fin = jsmul_Fin jsdiv_Fin jsadd_Fin jssub_Fin jsle_Fin jslt_Fin jsge_Fin jsgt_Fin

lemma jsle_FinD: "jsle x (Fin y) \<Longrightarrow> x = NegInf \<or> (x = NegZero \<and> 0 \<le> y) \<or> (\<exists>r. x = Fin r \<and> r \<le> y)"
  by (cases x) (simp_all add: jsle_def)

lemma jsge_FinD: "jsge x (Fin y) \<Longrightarrow> x = PosInf \<or> (x = NegZero \<and> y \<le> 0) \<or> (\<exists>r. x = Fin r \<and> y \<le> r)"
  by (cases x) (simp_all add: jsge_def jsle_def)

lemma jslt_between:
  "jslt (Fin l) x \<Longrightarrow> jslt x (Fin u) \<Longrightarrow> 0 < l \<Longrightarrow> \<exists>r. x = Fin r \<and> l < r \<and> r < u"
  by (cases x) (simp_all add: jslt_def)

lemma jsmax_Fin: "jsmax (Fin x) (Fin y) = Fin (max x y)"
  by (simp add: jsmax_def jslt_Fin max_def)

lemma jsgt_zeroD: "jsgt x (Fin 0) \<Longrightarrow> x = PosInf \<or> (\<exists>r. x = Fin r \<and> 0 < r)"
  by (cases x) (simp_all add: jsgt_def jslt_def)

lemma jsgt_zero_finiteD: "jsgt x (Fin 0) \<Longrightarrow> is_finite x \<Longrightarrow> \<exists>r. x = Fin r \<and> 0 < r"
  by (cases x) (simp_all add: jsgt_def jslt_def)

lemma jsdiv_zero_pos: "is_zero x \<Longrightarrow> jsgt y (Fin 0) \<Longrightarrow> is_zero (jsdiv x y)"
  by (cases x; cases y) (auto simp: jsgt_def jslt_def jsdiv_def zero_of_def)

lemma jsmul_zero_Fin: "is_zero x \<Longrightarrow> is_zero (jsmul x (Fin r))"
  by (cases x) (auto simp: jsmul_def zero_of_def)

lemma jsmul_Fin_zero: "is_zero x \<Longrightarrow> is_zero (jsmul (Fin r) x)"
  by (cases x) (auto simp: jsmul_def zero_of_def)

lemma jssub_Fin_zero: "is_zero z \<Longrightarrow> jssub (Fin r) z = Fin r"
  by (cases z) (auto simp: jssub_def jsadd_def)

section \<open>The beta1 rule\<close>

lemma calculateBeta1_spec: "calculateBeta1 x = spec_resolveBeta1 x"
  by (simp add: calculateBeta1_def spec_resolveBeta1_def BETA1_FC_4000_def BETA1_FC_8000_def
      jssub_Fin)

lemma calculateBeta1_Fin: "calculateBeta1 (Fin x) = Fin (beta1_real x)"
  by (simp add: calculateBeta1_spec spec_resolveBeta1_def beta1_real_def js_Fin)

lemma beta1_real_bounds: "0.65 \<le> beta1_real x \<and> beta1_real x \<le> 0.85"
  by (simp add: beta1_real_def)

lemma calculateBeta1_pos:
  assumes "jsgt x (Fin 0)"
  shows "jsgt (calculateBeta1 x) (Fin 0)"
proof -
  from jsgt_zeroD[OF assms] show ?thesis
  proof
    assume "x = PosInf"
    then show ?thesis
      by (simp add: calculateBeta1_def BETA1_FC_8000_def jsle_def jsge_def jsgt_Fin)
  next
    assume "\<exists>r. x = Fin r \<and> 0 < r"
    then obtain r where "x = Fin r" by blast
    moreover have "0 < beta1_real r"
      using beta1_real_bounds[of r] by simp
    ultimately show ?thesis
      by (simp add: calculateBeta1_Fin jsgt_Fin)
  qed
qed

text \<open>
  Claim C3. For every concrete strength \<open>fc\<close>, \<open>calculateBeta1\<close> returns 0.85 when
  \<open>fc \<le> 4000\<close>, 0.65 when \<open>fc \<ge> 8000\<close>, and
  \<open>0.85 - ((fc - 4000) / 4000) * 0.20\<close> when \<open>4000 < fc < 8000\<close>; the boundary
  values 4000 and 8000 give exactly 0.85 and 0.65. The interpolation is stated twice: with
  the operations of the module, and as the real number it denotes.
\<close>

theorem C3_beta1:
  "(jsle x (Fin 4000) \<longrightarrow> calculateBeta1 x = Fin 0.85) \<and>
   (jsge x (Fin 8000) \<longrightarrow> calculateBeta1 x = Fin 0.65) \<and>
   (jslt (Fin 4000) x \<and> jslt x (Fin 8000) \<longrightarrow>
      calculateBeta1 x =
        jssub (Fin 0.85) (jsmul (jsdiv (jssub x (Fin 4000)) (Fin 4000)) (Fin 0.20))) \<and>
   (\<forall>r. 4000 < r \<and> r < 8000 \<longrightarrow>
      calculateBeta1 (Fin r) = Fin (0.85 - ((r - 4000) / 4000) * 0.20)) \<and>
   calculateBeta1 (Fin 4000) = Fin 0.85 \<and>
   calculateBeta1 (Fin 8000) = Fin 0.65"
proof (intro conjI impI allI)
  show "calculateBeta1 x = Fin 0.85" if "jsle x (Fin 4000)"
    using that by (simp add: calculateBeta1_def BETA1_FC_4000_def)
  show "calculateBeta1 x = Fin 0.65" if "jsge x (Fin 8000)"
  proof -
    from jsge_FinD[OF that] have "\<not> jsle x (Fin 4000)"
      by (auto simp: jsle_def)
    with that show ?thesis
      by (simp add: calculateBeta1_def BETA1_FC_8000_def)
  qed
  show "calculateBeta1 x =
        jssub (Fin 0.85) (jsmul (jsdiv (jssub x (Fin 4000)) (Fin 4000)) (Fin 0.20))"
    if "jslt (Fin 4000) x \<and> jslt x (Fin 8000)"
  proof -
    from that obtain r where "x = Fin r" "4000 < r" "r < 8000"
      using jslt_between[of 4000 x 8000] by auto
    then show ?thesis
      by (simp add: calculateBeta1_spec spec_resolveBeta1_def js_Fin)
  qed
  show "calculateBeta1 (Fin r) = Fin (0.85 - ((r - 4000) / 4000) * 0.20)"
    if "4000 < r \<and> r < 8000" for r
    using that by (simp add: calculateBeta1_spec spec_resolveBeta1_def js_Fin)
  show "calculateBeta1 (Fin 4000) = Fin 0.85"
    by (simp add: calculateBeta1_def BETA1_FC_4000_def jsle_Fin)
  show "calculateBeta1 (Fin 8000) = Fin 0.65"
    by (simp add: calculateBeta1_def BETA1_FC_8000_def jsle_Fin jsge_Fin)
qed

theorem C3_beta1_witness:
  "jsle (Fin 3000) (Fin 4000) \<and> calculateBeta1 (Fin 3000) = Fin 0.85 \<and>
   jsge (Fin 9000) (Fin 8000) \<and> calculateBeta1 (Fin 9000) = Fin 0.65 \<and>
   jslt (Fin 4000) (Fin 6000) \<and> jslt (Fin 6000) (Fin 8000) \<and>
   calculateBeta1 (Fin 6000) = Fin 0.75"
  using C3_beta1[of "Fin 3000"] C3_beta1[of "Fin 9000"] C3_beta1[of "Fin 6000"]
  by (simp add: js_Fin)

section \<open>The strength-reduction factor\<close>

lemma calculatePhi_spec: "calculatePhi e = spec_resolvePhi e"
  by (simp add: calculatePhi_def spec_resolvePhi_def EPSILON_Y_MIN_def)

lemma calculatePhi_Fin_transition:
  "0.002 < r \<Longrightarrow> r < 0.005 \<Longrightarrow>
   calculatePhi (Fin r) = Fin (0.65 + (r - 0.002) / (0.005 - 0.002) * (0.90 - 0.65))"
  by (simp add: calculatePhi_def EPSILON_Y_MIN_def js_Fin)

lemma calculatePhi_const_range:
  assumes "calculatePhi e = Fin 0.90 \<or> calculatePhi e = Fin 0.65"
  shows "\<exists>p. calculatePhi e = Fin p \<and> 0.65 \<le> p \<and> p \<le> 0.90"
proof -
  have hi: "(0.65::real) \<le> 0.90" by simp
  from assms show ?thesis
  proof
    assume "calculatePhi e = Fin 0.90"
    with hi show ?thesis by blast
  next
    assume "calculatePhi e = Fin 0.65"
    with hi show ?thesis by blast
  qed
qed

lemma calculatePhi_range:
  assumes "\<not> is_nan e"
  shows "\<exists>p. calculatePhi e = Fin p \<and> 0.65 \<le> p \<and> p \<le> 0.90"
proof (cases e)
  case (Fin r)
  show ?thesis
  proof (cases "0.002 < r \<and> r < 0.005")
    case True
    then have "calculatePhi e = Fin (0.65 + (r - 0.002) / (0.005 - 0.002) * (0.90 - 0.65))"
      using Fin by (simp add: calculatePhi_Fin_transition)
    moreover have "0.65 \<le> 0.65 + (r - 0.002) / (0.005 - 0.002) * (0.90 - 0.65)"
      using True by simp
    moreover have "0.65 + (r - 0.002) / (0.005 - 0.002) * (0.90 - 0.65) \<le> 0.90"
      using True by (simp add: field_simps)
    ultimately show ?thesis by blast
  next
    case False
    then have "calculatePhi e = Fin 0.90 \<or> calculatePhi e = Fin 0.65"
      using Fin by (auto simp: calculatePhi_def EPSILON_Y_MIN_def jsge_Fin jsle_Fin)
    then show ?thesis by (rule calculatePhi_const_range)
  qed
next
  case NegZero
  then have "calculatePhi e = Fin 0.65"
    by (simp add: calculatePhi_def EPSILON_Y_MIN_def jsge_def jsle_def)
  then show ?thesis using calculatePhi_const_range by blast
next
  case PosInf
  then have "calculatePhi e = Fin 0.90"
    by (simp add: calculatePhi_def EPSILON_Y_MIN_def jsge_def jsle_def)
  then show ?thesis using calculatePhi_const_range by blast
next
  case NegInf
  then have "calculatePhi e = Fin 0.65"
    by (simp add: calculatePhi_def EPSILON_Y_MIN_def jsge_def jsle_def)
  then show ?thesis using calculatePhi_const_range by blast
next
  case NaN
  with assms show ?thesis by simp
qed

lemma calculatePhi_NaN: "calculatePhi NaN = NaN"
  by (simp add: calculatePhi_def EPSILON_Y_MIN_def jsge_def jsle_def jssub_def jsadd_def
      jsdiv_def jsmul_def)

text \<open>
  Claim C4. For every tensile strain, the infinities and negative values included,
  \<open>calculatePhi\<close> returns 0.90 when the strain is at least 0.005, 0.65 when it is at most
  0.002, and \<open>0.65 + (epsilonT - 0.002) / (0.005 - 0.002) * (0.90 - 0.65)\<close> strictly
  between; equality at either bound takes the constant branch.
\<close>

theorem C4_phi:
  "(jsge e (Fin 0.005) \<longrightarrow> calculatePhi e = Fin 0.90) \<and>
   (jsle e (Fin 0.002) \<longrightarrow> calculatePhi e = Fin 0.65) \<and>
   (jslt (Fin 0.002) e \<and> jslt e (Fin 0.005) \<longrightarrow>
      calculatePhi e =
        jsadd (Fin 0.65)
          (jsmul (jsdiv (jssub e (Fin 0.002)) (jssub (Fin 0.005) (Fin 0.002)))
                 (jssub (Fin 0.90) (Fin 0.65)))) \<and>
   (\<forall>r. 0.002 < r \<and> r < 0.005 \<longrightarrow>
      calculatePhi (Fin r) = Fin (0.65 + (r - 0.002) / (0.005 - 0.002) * (0.90 - 0.65))) \<and>
   calculatePhi (Fin 0.005) = Fin 0.90 \<and>
   calculatePhi (Fin 0.002) = Fin 0.65 \<and>
   calculatePhi PosInf = Fin 0.90 \<and>
   calculatePhi NegInf = Fin 0.65"
proof (intro conjI impI allI)
  show "calculatePhi e = Fin 0.90" if "jsge e (Fin 0.005)"
    using that by (simp add: calculatePhi_def EPSILON_Y_MIN_def)
  show "calculatePhi e = Fin 0.65" if "jsle e (Fin 0.002)"
  proof -
    from jsle_FinD[OF that] have "\<not> jsge e (Fin 0.005)"
      by (auto simp: jsge_def jsle_def)
    with that show ?thesis
      by (simp add: calculatePhi_def EPSILON_Y_MIN_def)
  qed
  show "calculatePhi e =
        jsadd (Fin 0.65)
          (jsmul (jsdiv (jssub e (Fin 0.002)) (jssub (Fin 0.005) (Fin 0.002)))
                 (jssub (Fin 0.90) (Fin 0.65)))"
    if "jslt (Fin 0.002) e \<and> jslt e (Fin 0.005)"
  proof -
    from that obtain r where "e = Fin r" "0.002 < r" "r < 0.005"
      using jslt_between[of "0.002" e "0.005"] by auto
    then show ?thesis
      by (simp add: calculatePhi_spec spec_resolvePhi_def jsge_Fin jsle_Fin)
  qed
  show "calculatePhi (Fin r) = Fin (0.65 + (r - 0.002) / (0.005 - 0.002) * (0.90 - 0.65))"
    if "0.002 < r \<and> r < 0.005" for r
    using that by (simp add: calculatePhi_Fin_transition)
  show "calculatePhi (Fin 0.005) = Fin 0.90"
    by (simp add: calculatePhi_def EPSILON_Y_MIN_def jsge_Fin)
  show "calculatePhi (Fin 0.002) = Fin 0.65"
    by (simp add: calculatePhi_def EPSILON_Y_MIN_def jsge_Fin jsle_Fin)
  show "calculatePhi PosInf = Fin 0.90"
    by (simp add: calculatePhi_def EPSILON_Y_MIN_def jsge_def jsle_def)
  show "calculatePhi NegInf = Fin 0.65"
    by (simp add: calculatePhi_def EPSILON_Y_MIN_def jsge_def jsle_def)
qed

theorem C4_phi_witness:
  "jsge (Fin 0.0088) (Fin 0.005) \<and> calculatePhi (Fin 0.0088) = Fin 0.90 \<and>
   jsle (Fin (- 0.001)) (Fin 0.002) \<and> calculatePhi (Fin (- 0.001)) = Fin 0.65 \<and>
   jslt (Fin 0.002) (Fin 0.0035) \<and> jslt (Fin 0.0035) (Fin 0.005) \<and>
   calculatePhi (Fin 0.0035) = Fin 0.775"
  using C4_phi[of "Fin 0.0088"] C4_phi[of "Fin (- 0.001)"] C4_phi[of "Fin 0.0035"]
  by (simp add: js_Fin)

section \<open>The bar table\<close>

text \<open>
  Claim C7. \<open>getBarArea\<close> maps the eleven sizes 3, 4, 5, 6, 7, 8, 9, 10, 11, 14, 18 to
  the areas 0.11, 0.20, 0.31, 0.44, 0.60, 0.79, 1.00, 1.27, 1.56, 2.25, 4.00, and every
  other number to 0; \<open>getAvailableBarSizes\<close> is the list of these eleven sizes, strictly
  ascending.
\<close>

theorem C7_bar_table:
  "map getBarArea [Fin 3, Fin 4, Fin 5, Fin 6, Fin 7, Fin 8, Fin 9, Fin 10, Fin 11, Fin 14, Fin 18]
     = [Fin 0.11, Fin 0.20, Fin 0.31, Fin 0.44, Fin 0.60, Fin 0.79, Fin 1.00, Fin 1.27,
        Fin 1.56, Fin 2.25, Fin 4.00] \<and>
   (\<forall>x. x \<notin> set [Fin 3, Fin 4, Fin 5, Fin 6, Fin 7, Fin 8, Fin 9, Fin 10, Fin 11, Fin 14, Fin 18]
        \<longrightarrow> getBarArea x = Fin 0) \<and>
   getAvailableBarSizes
     = [Fin 3, Fin 4, Fin 5, Fin 6, Fin 7, Fin 8, Fin 9, Fin 10, Fin 11, Fin 14, Fin 18] \<and>
   sorted_wrt jslt getAvailableBarSizes"
proof (intro conjI allI impI)
  show "map getBarArea [Fin 3, Fin 4, Fin 5, Fin 6, Fin 7, Fin 8, Fin 9, Fin 10, Fin 11, Fin 14, Fin 18]
     = [Fin 0.11, Fin 0.20, Fin 0.31, Fin 0.44, Fin 0.60, Fin 0.79, Fin 1.00, Fin 1.27,
        Fin 1.56, Fin 2.25, Fin 4.00]"
    by (simp add: getBarArea_def barAreas_def falsy_def)
  show "getBarArea x = Fin 0"
    if "x \<notin> set [Fin 3, Fin 4, Fin 5, Fin 6, Fin 7, Fin 8, Fin 9, Fin 10, Fin 11, Fin 14, Fin 18]"
    for x
    using that by (simp add: getBarArea_def barAreas_def)
  show "getAvailableBarSizes
     = [Fin 3, Fin 4, Fin 5, Fin 6, Fin 7, Fin 8, Fin 9, Fin 10, Fin 11, Fin 14, Fin 18]"
    by (simp add: getAvailableBarSizes_def)
  show "sorted_wrt jslt getAvailableBarSizes"
    by (simp add: getAvailableBarSizes_def jslt_Fin)
qed

theorem C7_bar_table_witness:
  "Fin 99 \<notin> set [Fin 3, Fin 4, Fin 5, Fin 6, Fin 7, Fin 8, Fin 9, Fin 10, Fin 11, Fin 14, Fin 18]
   \<and> getBarArea (Fin 99) = Fin 0 \<and> getBarArea (Fin 8) = Fin 0.79 \<and> getBarArea NaN = Fin 0"
  using C7_bar_table by (simp add: getAvailableBarSizes_def)

section \<open>Reinforcement limits\<close>

text \<open>
  Claim C5. For every \<open>fc\<close> and \<open>fy\<close>,
  \<open>rhoMin = max (3 * sqrt fc / fy) (200 / fy)\<close>,
  \<open>rhoBalanced = (0.85 * fc * beta1 / fy) * (0.003 / (0.003 + fy / 29000000))\<close> with the
  beta1 rule, and \<open>rhoMax = 0.75 * rhoBalanced\<close>.
\<close>

theorem C5_limits:
  "calculateRhoMin x y = jsmax (jsdiv (jsmul (Fin 3) (jssqrt x)) y) (jsdiv (Fin 200) y) \<and>
   calculateRhoBalanced x y =
     jsmul (jsdiv (jsmul (jsmul (Fin 0.85) x) (spec_resolveBeta1 x)) y)
           (jsdiv (Fin 0.003) (jsadd (Fin 0.003) (jsdiv y (Fin 29000000)))) \<and>
   calculateRhoMax x y = jsmul (Fin 0.75) (calculateRhoBalanced x y)"
proof (intro conjI)
  show "calculateRhoMin x y = jsmax (jsdiv (jsmul (Fin 3) (jssqrt x)) y) (jsdiv (Fin 200) y)"
    by (simp add: calculateRhoMin_def Let_def)
  show "calculateRhoBalanced x y =
     jsmul (jsdiv (jsmul (jsmul (Fin 0.85) x) (spec_resolveBeta1 x)) y)
           (jsdiv (Fin 0.003) (jsadd (Fin 0.003) (jsdiv y (Fin 29000000))))"
    by (simp add: calculateRhoBalanced_def Let_def calculateBeta1_spec EPSILON_C_MAX_def)
  show "calculateRhoMax x y = jsmul (Fin 0.75) (calculateRhoBalanced x y)"
    by (rule calculateRhoMax_def)
qed

theorem C5_limits_witness:
  "calculateRhoMin (Fin 4000) (Fin 60000) = Fin (max (sqrt 4000 / 20000) (1 / 300)) \<and>
   calculateRhoBalanced (Fin 4000) (Fin 60000) = Fin (8381 / 294000) \<and>
   calculateRhoMax (Fin 4000) (Fin 60000) = Fin (8381 / 392000)"
  using C5_limits[of "Fin 4000" "Fin 60000"]
  by (simp add: spec_resolveBeta1_def js_Fin jsmax_Fin)

section \<open>Fields of the result\<close>

lemma rho_field: "rho (calculateBeamStrength i) = jsdiv (As i) (jsmul (b i) (d i))"
  by (simp add: calculateBeamStrength_def Let_def)

lemma rhoMin_field: "rhoMin (calculateBeamStrength i) = calculateRhoMin (fc i) (fy i)"
  by (simp add: calculateBeamStrength_def Let_def)

lemma rhoBalanced_field:
  "rhoBalanced (calculateBeamStrength i) = calculateRhoBalanced (fc i) (fy i)"
  by (simp add: calculateBeamStrength_def Let_def)

lemma rhoMax_field: "rhoMax (calculateBeamStrength i) = calculateRhoMax (fc i) (fy i)"
  by (simp add: calculateBeamStrength_def Let_def)

lemma a_field:
  "a (calculateBeamStrength i) =
     jsdiv (jsmul (As i) (fy i)) (jsmul (jsmul (Fin 0.85) (fc i)) (b i))"
  by (simp add: calculateBeamStrength_def Let_def)

lemma c_field:
  "c (calculateBeamStrength i) = jsdiv (a (calculateBeamStrength i)) (calculateBeta1 (fc i))"
  by (simp add: calculateBeamStrength_def Let_def)

lemma epsilonC_field: "epsilonC (calculateBeamStrength i) = EPSILON_C_MAX"
  by (simp add: calculateBeamStrength_def Let_def)

lemma epsilonT_field:
  "epsilonT (calculateBeamStrength i) =
     jsdiv (jsmul EPSILON_C_MAX (jssub (d i) (c (calculateBeamStrength i))))
           (c (calculateBeamStrength i))"
  by (simp add: calculateBeamStrength_def Let_def)

lemma phi_field:
  "phi (calculateBeamStrength i) = calculatePhi (epsilonT (calculateBeamStrength i))"
  by (simp add: calculateBeamStrength_def Let_def)

lemma Mn_field:
  "Mn (calculateBeamStrength i) =
     jsdiv (jsmul (jsmul (As i) (fy i)) (jssub (d i) (jsdiv (a (calculateBeamStrength i)) (Fin 2))))
           (Fin 12)"
  by (simp add: calculateBeamStrength_def Let_def)

lemma phiMn_field:
  "phiMn (calculateBeamStrength i) =
     jsmul (phi (calculateBeamStrength i)) (Mn (calculateBeamStrength i))"
  by (simp add: calculateBeamStrength_def Let_def)

lemma isUnderReinforced_field:
  "isUnderReinforced (calculateBeamStrength i) =
     jsle (rho (calculateBeamStrength i)) (rhoMax (calculateBeamStrength i))"
  by (simp add: calculateBeamStrength_def Let_def)

lemma meetsMinSteel_field:
  "meetsMinSteel (calculateBeamStrength i) =
     jsge (rho (calculateBeamStrength i)) (rhoMin (calculateBeamStrength i))"
  by (simp add: calculateBeamStrength_def Let_def)

lemma isValid_field:
  "isValid (calculateBeamStrength i) =
     (isUnderReinforced (calculateBeamStrength i) \<and> meetsMinSteel (calculateBeamStrength i)
      \<and> jslt (d i) (h i) \<and> jsgt (As i) (Fin 0))"
  by (simp add: calculateBeamStrength_def Let_def)

text \<open>
  Claim C1. For every input, the numeric fields of the result are those of the closed-form
  pipeline: \<open>rho = As / (b * d)\<close>, \<open>a = As * fy / (0.85 * fc * b)\<close>,
  \<open>c = a / beta1\<close> with the beta1 rule, \<open>epsilonC = 0.003\<close>,
  \<open>epsilonT = 0.003 * (d - c) / c\<close>, \<open>Mn = As * fy * (d - a / 2) / 12\<close>, and
  \<open>phiMn = phi * Mn\<close> with \<open>phi\<close> from the strain rule applied to \<open>epsilonT\<close>.
\<close>

theorem C1_pipeline:
  "rho (calculateBeamStrength i) = jsdiv (As i) (jsmul (b i) (d i)) \<and>
   a (calculateBeamStrength i) =
     jsdiv (jsmul (As i) (fy i)) (jsmul (jsmul (Fin 0.85) (fc i)) (b i)) \<and>
   c (calculateBeamStrength i) =
     jsdiv (a (calculateBeamStrength i)) (spec_resolveBeta1 (fc i)) \<and>
   epsilonC (calculateBeamStrength i) = Fin 0.003 \<and>
   epsilonT (calculateBeamStrength i) =
     jsdiv (jsmul (Fin 0.003) (jssub (d i) (c (calculateBeamStrength i))))
           (c (calculateBeamStrength i)) \<and>
   Mn (calculateBeamStrength i) =
     jsdiv (jsmul (jsmul (As i) (fy i))
                  (jssub (d i) (jsdiv (a (calculateBeamStrength i)) (Fin 2))))
           (Fin 12) \<and>
   phi (calculateBeamStrength i) = spec_resolvePhi (epsilonT (calculateBeamStrength i)) \<and>
   phiMn (calculateBeamStrength i) =
     jsmul (phi (calculateBeamStrength i)) (Mn (calculateBeamStrength i))"
proof (intro conjI)
  show "rho (calculateBeamStrength i) = jsdiv (As i) (jsmul (b i) (d i))"
    by (rule rho_field)
  show "a (calculateBeamStrength i) =
     jsdiv (jsmul (As i) (fy i)) (jsmul (jsmul (Fin 0.85) (fc i)) (b i))"
    by (rule a_field)
  show "c (calculateBeamStrength i) =
     jsdiv (a (calculateBeamStrength i)) (spec_resolveBeta1 (fc i))"
    by (simp only: c_field calculateBeta1_spec)
  show "epsilonC (calculateBeamStrength i) = Fin 0.003"
    by (simp only: epsilonC_field EPSILON_C_MAX_def)
  show "epsilonT (calculateBeamStrength i) =
     jsdiv (jsmul (Fin 0.003) (jssub (d i) (c (calculateBeamStrength i))))
           (c (calculateBeamStrength i))"
    using epsilonT_field[of i] by (simp only: EPSILON_C_MAX_def)
  show "Mn (calculateBeamStrength i) =
     jsdiv (jsmul (jsmul (As i) (fy i))
                  (jssub (d i) (jsdiv (a (calculateBeamStrength i)) (Fin 2))))
           (Fin 12)"
    by (rule Mn_field)
  show "phi (calculateBeamStrength i) = spec_resolvePhi (epsilonT (calculateBeamStrength i))"
    by (simp only: phi_field calculatePhi_spec)
  show "phiMn (calculateBeamStrength i) =
     jsmul (phi (calculateBeamStrength i)) (Mn (calculateBeamStrength i))"
    by (rule phiMn_field)
qed

theorem C1_pipeline_witness:
  "rho (calculateBeamStrength scenario1) = Fin (79 / 6450) \<and>
   a (calculateBeamStrength scenario1) = Fin (79 / 17) \<and>
   epsilonC (calculateBeamStrength scenario1) = Fin 0.003"
  using C1_pipeline[of scenario1]
  by (simp add: scenario1_def js_Fin)

text \<open>
  Claim C2. For every input, \<open>isUnderReinforced = (rho \<le> rhoMax)\<close>,
  \<open>meetsMinSteel = (rho \<ge> rhoMin)\<close> and \<open>isValid\<close> is the conjunction of both with
  \<open>d < h\<close> and \<open>As > 0\<close>, on the fields of the same result.
\<close>

theorem C2_checks:
  "isUnderReinforced (calculateBeamStrength i) =
     jsle (rho (calculateBeamStrength i)) (rhoMax (calculateBeamStrength i)) \<and>
   meetsMinSteel (calculateBeamStrength i) =
     jsge (rho (calculateBeamStrength i)) (rhoMin (calculateBeamStrength i)) \<and>
   isValid (calculateBeamStrength i) =
     (isUnderReinforced (calculateBeamStrength i) \<and> meetsMinSteel (calculateBeamStrength i)
      \<and> jslt (d i) (h i) \<and> jsgt (As i) (Fin 0))"
  using isUnderReinforced_field[of i] meetsMinSteel_field[of i] isValid_field[of i]
  by blast

theorem C2_checks_witness:
  "isValid (calculateBeamStrength scenario1) =
     (isUnderReinforced (calculateBeamStrength scenario1) \<and>
      meetsMinSteel (calculateBeamStrength scenario1))"
  using C2_checks[of scenario1]
  by (simp add: scenario1_def js_Fin)

section \<open>Division by zero\<close>

lemma jsdiv_zero_not_finite: "is_zero y \<or> is_nan y \<Longrightarrow> \<not> is_finite (jsdiv x y)"
  by (cases x; cases y) (auto simp: jsdiv_def inf_of_def zero_of_def)

lemma jsmul_zero_left: "is_zero x \<Longrightarrow> is_zero (jsmul x y) \<or> is_nan (jsmul x y)"
  by (cases x; cases y) (auto simp: jsmul_def inf_of_def zero_of_def)

lemma jsmul_zero_right: "is_zero y \<Longrightarrow> is_zero (jsmul x y) \<or> is_nan (jsmul x y)"
  by (cases x; cases y) (auto simp: jsmul_def inf_of_def zero_of_def)

lemma jsmul_nan_left: "is_nan x \<Longrightarrow> is_nan (jsmul x y)"
  by (simp add: jsmul_def)

lemma rho_not_finite:
  assumes "is_zero (b i) \<or> is_zero (d i)"
  shows "\<not> is_finite (rho (calculateBeamStrength i))"
proof -
  have "is_zero (jsmul (b i) (d i)) \<or> is_nan (jsmul (b i) (d i))"
    using assms jsmul_zero_left[of "b i" "d i"] jsmul_zero_right[of "d i" "b i"] by blast
  then show ?thesis
    by (simp only: rho_field jsdiv_zero_not_finite not_False_eq_True)
qed

lemma a_not_finite:
  assumes "is_zero (b i) \<or> is_zero (fc i)"
  shows "\<not> is_finite (a (calculateBeamStrength i))"
proof -
  have inner: "is_zero (fc i) \<Longrightarrow>
      is_zero (jsmul (Fin 0.85) (fc i)) \<or> is_nan (jsmul (Fin 0.85) (fc i))"
    by (rule jsmul_zero_right)
  have "is_zero (jsmul (jsmul (Fin 0.85) (fc i)) (b i))
        \<or> is_nan (jsmul (jsmul (Fin 0.85) (fc i)) (b i))"
    using assms inner jsmul_zero_left[of "jsmul (Fin 0.85) (fc i)" "b i"]
      jsmul_nan_left[of "jsmul (Fin 0.85) (fc i)" "b i"]
      jsmul_zero_right[of "b i" "jsmul (Fin 0.85) (fc i)"]
    by blast
  then show ?thesis
    by (simp only: a_field jsdiv_zero_not_finite not_False_eq_True)
qed

lemma epsilonT_not_finite:
  assumes "is_zero (c (calculateBeamStrength i))"
  shows "\<not> is_finite (epsilonT (calculateBeamStrength i))"
proof -
  have "\<not> is_finite (jsdiv (jsmul EPSILON_C_MAX (jssub (d i) (c (calculateBeamStrength i))))
                           (c (calculateBeamStrength i)))"
    using assms by (intro jsdiv_zero_not_finite) simp
  then show ?thesis
    using epsilonT_field[of i] by simp
qed

text \<open>
  Claim C9. \<open>calculateBeamStrength\<close> is total and raises nothing: the module has no
  \<open>throw\<close>, and every operation it applies to its numbers (arithmetic, comparison,
  \<open>Math.sqrt\<close>, \<open>Math.max\<close>) returns a number or a boolean for all arguments, so the
  model is a total function into the result record. On degenerate inputs the division by
  zero shows as a value that is infinite or not-a-number: \<open>rho\<close> when \<open>b\<close> or \<open>d\<close>
  is zero, \<open>a\<close> when \<open>b\<close> or \<open>fc\<close> is zero, \<open>epsilonT\<close> when the neutral-axis
  depth \<open>c\<close> is zero.
\<close>

theorem C9_degenerate:
  "(is_zero (b i) \<or> is_zero (d i) \<longrightarrow> \<not> is_finite (rho (calculateBeamStrength i))) \<and>
   (is_zero (b i) \<or> is_zero (fc i) \<longrightarrow> \<not> is_finite (a (calculateBeamStrength i))) \<and>
   (is_zero (c (calculateBeamStrength i)) \<longrightarrow>
      \<not> is_finite (epsilonT (calculateBeamStrength i)))"
  using rho_not_finite[of i] a_not_finite[of i] epsilonT_not_finite[of i]
  by blast

theorem C9_degenerate_witness:
  "is_zero (b zeroWidth) \<and> rho (calculateBeamStrength zeroWidth) = PosInf \<and>
   \<not> is_finite (rho (calculateBeamStrength zeroWidth)) \<and>
   is_zero (fc zeroStrength) \<and> a (calculateBeamStrength zeroStrength) = PosInf \<and>
   \<not> is_finite (a (calculateBeamStrength zeroStrength)) \<and>
   is_zero (c (calculateBeamStrength noSteel)) \<and>
   epsilonT (calculateBeamStrength noSteel) = PosInf \<and>
   \<not> is_finite (epsilonT (calculateBeamStrength noSteel))"
proof -
  have r: "rho (calculateBeamStrength zeroWidth) = PosInf"
    by (simp add: zeroWidth_def rho_field js_Fin jsdiv_def zero_of_def inf_of_def)
  have a0: "a (calculateBeamStrength zeroStrength) = PosInf"
    by (simp add: zeroStrength_def a_field js_Fin jsdiv_def zero_of_def inf_of_def)
  have "a (calculateBeamStrength noSteel) = Fin 0"
    by (simp add: noSteel_def a_field js_Fin zero_of_def)
  then have c0: "c (calculateBeamStrength noSteel) = Fin 0"
    by (simp add: c_field)
       (simp add: noSteel_def calculateBeta1_Fin beta1_real_def js_Fin zero_of_def)
  have e: "epsilonT (calculateBeamStrength noSteel) = PosInf"
    by (simp add: epsilonT_field c0)
       (simp add: noSteel_def EPSILON_C_MAX_def js_Fin jsdiv_def inf_of_def)
  have z: "is_zero (b zeroWidth)" "is_zero (fc zeroStrength)"
    by (simp_all add: zeroWidth_def zeroStrength_def)
  from C9_degenerate[of zeroWidth] C9_degenerate[of zeroStrength] C9_degenerate[of noSteel]
    r a0 c0 e z
  show ?thesis by simp
qed

section \<open>Scenario 1\<close>

text \<open>The steel area of the scenario is that of four #8 bars, as the application computes
  it from the bar table.\<close>

lemma scenario1_As: "As scenario1 = jsmul (getBarArea (Fin 8)) (numBars scenario1)"
  by (simp add: scenario1_def getBarArea_def barAreas_def falsy_def jsmul_Fin)

lemma scenario1_a: "a (calculateBeamStrength scenario1) = Fin (79 / 17)"
  by (simp add: a_field scenario1_def js_Fin)

lemma scenario1_c: "c (calculateBeamStrength scenario1) = Fin (1580 / 289)"
  by (simp add: c_field scenario1_a) (simp add: scenario1_def calculateBeta1_Fin beta1_real_def js_Fin)

lemma scenario1_epsilonT: "epsilonT (calculateBeamStrength scenario1) = Fin (27801 / 3160000)"
  by (simp add: epsilonT_field scenario1_c) (simp add: scenario1_def EPSILON_C_MAX_def js_Fin)

lemma scenario1_phi: "phi (calculateBeamStrength scenario1) = Fin 0.90"
  by (simp add: phi_field scenario1_epsilonT)
     (simp add: calculatePhi_def EPSILON_Y_MIN_def jsge_Fin)

lemma scenario1_Mn: "Mn (calculateBeamStrength scenario1) = Fin (5150800 / 17)"
  by (simp add: Mn_field scenario1_a) (simp add: scenario1_def js_Fin)

lemma scenario1_phiMn: "phiMn (calculateBeamStrength scenario1) = Fin (4635720 / 17)"
  by (simp add: phiMn_field scenario1_phi scenario1_Mn js_Fin)

lemma scenario1_rho: "rho (calculateBeamStrength scenario1) = Fin (79 / 6450)"
  by (simp add: rho_field scenario1_def js_Fin)

lemma sqrt_4000_bound: "sqrt 4000 < 64"
proof -
  have "sqrt 4000 < sqrt (64\<^sup>2)"
    by (simp only: real_sqrt_less_iff) simp
  then show ?thesis by simp
qed

lemma scenario1_rhoMin: "rhoMin (calculateBeamStrength scenario1) = Fin (1 / 300)"
proof -
  have "sqrt 4000 / 20000 \<le> (1::real) / 300"
    using sqrt_4000_bound by simp
  then have "max (sqrt 4000 / 20000) (1 / 300) = (1::real) / 300"
    by (rule max_absorb2)
  then show ?thesis
    by (simp add: rhoMin_field scenario1_def calculateRhoMin_def Let_def js_Fin jsmax_Fin)
qed

lemma scenario1_rhoMax: "rhoMax (calculateBeamStrength scenario1) = Fin (8381 / 392000)"
  by (simp add: rhoMax_field scenario1_def calculateRhoMax_def calculateRhoBalanced_def Let_def
      calculateBeta1_Fin beta1_real_def EPSILON_C_MAX_def js_Fin)

lemma scenario1_isValid: "isValid (calculateBeamStrength scenario1)"
  by (simp add: isValid_field isUnderReinforced_field meetsMinSteel_field
      scenario1_rho scenario1_rhoMin scenario1_rhoMax js_Fin)
     (simp add: scenario1_def js_Fin)

text \<open>
  Claim C6, amended. For \<open>b = 12\<close>, \<open>h = 24\<close>, \<open>d = 21.5\<close>, \<open>fc = 4000\<close>,
  \<open>fy = 60000\<close>, \<open>As = 3.16\<close> the stress-block depth is \<open>a = 79/17\<close>, about 4.647
  (not 3.10); the section is tension-controlled (\<open>epsilonT \<ge> 0.005\<close>) with
  \<open>phi = 0.90\<close>, \<open>phiMn = 0.90 * Mn\<close>, and \<open>isValid\<close> holds.
\<close>

theorem C6_scenario1:
  "a (calculateBeamStrength scenario1) = Fin (79 / 17) \<and>
   jslt (Fin 4.64) (a (calculateBeamStrength scenario1)) \<and>
   jslt (a (calculateBeamStrength scenario1)) (Fin 4.65) \<and>
   jsge (epsilonT (calculateBeamStrength scenario1)) (Fin 0.005) \<and>
   phi (calculateBeamStrength scenario1) = Fin 0.90 \<and>
   phiMn (calculateBeamStrength scenario1) =
     jsmul (Fin 0.90) (Mn (calculateBeamStrength scenario1)) \<and>
   isValid (calculateBeamStrength scenario1)"
proof (intro conjI)
  show "a (calculateBeamStrength scenario1) = Fin (79 / 17)"
    by (rule scenario1_a)
  show "jslt (Fin 4.64) (a (calculateBeamStrength scenario1))"
    by (simp add: scenario1_a jslt_Fin)
  show "jslt (a (calculateBeamStrength scenario1)) (Fin 4.65)"
    by (simp add: scenario1_a jslt_Fin)
  show "jsge (epsilonT (calculateBeamStrength scenario1)) (Fin 0.005)"
    by (simp add: scenario1_epsilonT jsge_Fin)
  show "phi (calculateBeamStrength scenario1) = Fin 0.90"
    by (rule scenario1_phi)
  show "phiMn (calculateBeamStrength scenario1) =
     jsmul (Fin 0.90) (Mn (calculateBeamStrength scenario1))"
    by (simp add: phiMn_field scenario1_phi)
  show "isValid (calculateBeamStrength scenario1)"
    by (rule scenario1_isValid)
qed

text \<open>
  The scenario as the specification words it does not hold: \<open>a\<close> is not within 0.05 of
  3.10, and the returned \<open>phiMn\<close> is not between 280 and 300.
\<close>

theorem C6_scenario1_counterexample:
  "\<not> (jsle (Fin 3.05) (a (calculateBeamStrength scenario1)) \<and>
      jsle (a (calculateBeamStrength scenario1)) (Fin 3.15)) \<and>
   \<not> (jsle (Fin 280) (phiMn (calculateBeamStrength scenario1)) \<and>
      jsle (phiMn (calculateBeamStrength scenario1)) (Fin 300))"
  by (simp add: scenario1_a scenario1_phiMn jsle_Fin)

section \<open>Range of phi\<close>

lemma zeroStrength_epsilonT: "epsilonT (calculateBeamStrength zeroStrength) = NaN"
proof -
  have a0: "a (calculateBeamStrength zeroStrength) = PosInf"
    by (simp add: zeroStrength_def a_field js_Fin jsdiv_def zero_of_def inf_of_def)
  have c0: "c (calculateBeamStrength zeroStrength) = PosInf"
    by (simp add: c_field a0)
       (simp add: zeroStrength_def calculateBeta1_Fin beta1_real_def jsdiv_def inf_of_def)
  show ?thesis
    by (simp add: epsilonT_field c0)
       (simp add: jsdiv_def jsmul_def jssub_def jsadd_def EPSILON_C_MAX_def zeroStrength_def
          inf_of_def)
qed

text \<open>
  Claim C8, amended. For every input whose computed \<open>epsilonT\<close> is a number, the
  \<open>phi\<close> field lies in the closed interval from 0.65 to 0.90; when \<open>epsilonT\<close> is
  not-a-number, so is \<open>phi\<close>.
\<close>

theorem C8_phi_range:
  "(\<not> is_nan (epsilonT (calculateBeamStrength i)) \<longrightarrow>
      jsle (Fin 0.65) (phi (calculateBeamStrength i)) \<and>
      jsle (phi (calculateBeamStrength i)) (Fin 0.90)) \<and>
   (is_nan (epsilonT (calculateBeamStrength i)) \<longrightarrow> is_nan (phi (calculateBeamStrength i)))"
proof (intro conjI impI)
  assume "\<not> is_nan (epsilonT (calculateBeamStrength i))"
  then obtain p where p: "calculatePhi (epsilonT (calculateBeamStrength i)) = Fin p"
      "0.65 \<le> p" "p \<le> 0.90"
    using calculatePhi_range by blast
  then show "jsle (Fin 0.65) (phi (calculateBeamStrength i))"
    by (simp add: phi_field jsle_Fin)
  from p show "jsle (phi (calculateBeamStrength i)) (Fin 0.90)"
    by (simp add: phi_field jsle_Fin)
next
  assume "is_nan (epsilonT (calculateBeamStrength i))"
  then have "epsilonT (calculateBeamStrength i) = NaN"
    by (cases "epsilonT (calculateBeamStrength i)") simp_all
  then show "is_nan (phi (calculateBeamStrength i))"
    by (simp add: phi_field calculatePhi_NaN)
qed

theorem C8_phi_range_witness:
  "\<not> is_nan (epsilonT (calculateBeamStrength scenario1)) \<and>
   jsle (Fin 0.65) (phi (calculateBeamStrength scenario1)) \<and>
   jsle (phi (calculateBeamStrength scenario1)) (Fin 0.90) \<and>
   is_nan (epsilonT (calculateBeamStrength zeroStrength)) \<and>
   is_nan (phi (calculateBeamStrength zeroStrength))"
  using C8_phi_range[of scenario1] C8_phi_range[of zeroStrength]
  by (simp add: scenario1_epsilonT zeroStrength_epsilonT)

text \<open>
  With a concrete strength of zero the strain is \<open>-Infinity / Infinity\<close>, and
  \<open>phi\<close> is not in the interval.
\<close>

theorem C8_phi_counterexample:
  "\<not> (jsle (Fin 0.65) (phi (calculateBeamStrength zeroStrength)) \<and>
      jsle (phi (calculateBeamStrength zeroStrength)) (Fin 0.90))"
  by (simp add: phi_field zeroStrength_epsilonT calculatePhi_NaN jsle_def)

section \<open>Zero steel area\<close>

text \<open>
  Every step below uses a special-value rule only: a zero times a finite number is a zero, a
  zero divided by a positive number is a zero, a finite number minus a zero is itself, a
  positive number divided by a zero is an infinity. The positivity of the three products
  that the function computes from positive factors is a hypothesis, not a consequence: in
  double arithmetic such a product can underflow to zero (\<open>1e-170 * 1e-170\<close>), which the
  exact products of the model do not show.
\<close>

lemma jsdiv_pos_zero: "jsgt x (Fin 0) \<Longrightarrow> is_zero z \<Longrightarrow> is_inf (jsdiv x z)"
  by (cases x; cases z) (auto simp: jsgt_def jslt_def jsdiv_def inf_of_def)

lemma zero_steel_rho:
  assumes "is_zero (As i)" "jsgt (jsmul (b i) (d i)) (Fin 0)"
  shows "is_zero (rho (calculateBeamStrength i))"
  using assms by (simp add: rho_field jsdiv_zero_pos)

lemma zero_steel_force:
  assumes "is_zero (As i)" "jsgt (fy i) (Fin 0)" "is_finite (fy i)"
  shows "is_zero (jsmul (As i) (fy i))"
proof -
  obtain r where "fy i = Fin r"
    using jsgt_zero_finiteD[OF assms(2,3)] by blast
  with assms(1) show ?thesis
    by (simp add: jsmul_zero_Fin)
qed

lemma zero_steel_a:
  assumes "is_zero (As i)" "jsgt (fy i) (Fin 0)" "is_finite (fy i)"
    "jsgt (jsmul (jsmul (Fin 0.85) (fc i)) (b i)) (Fin 0)"
  shows "is_zero (a (calculateBeamStrength i))"
  using zero_steel_force[OF assms(1,2,3)] assms(4) by (simp add: a_field jsdiv_zero_pos)

lemma zero_steel_Mn:
  assumes "is_zero (As i)" "jsgt (d i) (Fin 0)" "is_finite (d i)"
    "jsgt (fy i) (Fin 0)" "is_finite (fy i)"
    "jsgt (jsmul (jsmul (Fin 0.85) (fc i)) (b i)) (Fin 0)"
  shows "is_zero (Mn (calculateBeamStrength i))"
proof -
  obtain r where r: "d i = Fin r"
    using jsgt_zero_finiteD[OF assms(2,3)] by blast
  have "is_zero (jsdiv (a (calculateBeamStrength i)) (Fin 2))"
    using zero_steel_a[OF assms(1,4,5,6)] by (intro jsdiv_zero_pos) (simp_all add: jsgt_Fin)
  then have "jssub (d i) (jsdiv (a (calculateBeamStrength i)) (Fin 2)) = Fin r"
    using r by (simp add: jssub_Fin_zero)
  then have "is_zero (jsmul (jsmul (As i) (fy i))
                 (jssub (d i) (jsdiv (a (calculateBeamStrength i)) (Fin 2))))"
    using zero_steel_force[OF assms(1,4,5)] by (simp add: jsmul_zero_Fin)
  then have "is_zero (jsdiv (jsmul (jsmul (As i) (fy i))
                 (jssub (d i) (jsdiv (a (calculateBeamStrength i)) (Fin 2)))) (Fin 12))"
    by (intro jsdiv_zero_pos) (simp_all add: jsgt_Fin)
  then show ?thesis
    using Mn_field[of i] by simp
qed

lemma zero_steel_epsilonT:
  assumes "is_zero (As i)" "jsgt (d i) (Fin 0)" "is_finite (d i)" "jsgt (fc i) (Fin 0)"
    "jsgt (fy i) (Fin 0)" "is_finite (fy i)"
    "jsgt (jsmul (jsmul (Fin 0.85) (fc i)) (b i)) (Fin 0)"
    "jsgt (jsmul (Fin 0.003) (d i)) (Fin 0)"
  shows "is_inf (epsilonT (calculateBeamStrength i))"
proof -
  obtain r where r: "d i = Fin r"
    using jsgt_zero_finiteD[OF assms(2,3)] by blast
  have cz: "is_zero (c (calculateBeamStrength i))"
    using zero_steel_a[OF assms(1,5,6,7)] calculateBeta1_pos[OF assms(4)]
    by (simp add: c_field jsdiv_zero_pos)
  then have "jssub (d i) (c (calculateBeamStrength i)) = d i"
    using r by (simp add: jssub_Fin_zero)
  then have "jsgt (jsmul EPSILON_C_MAX (jssub (d i) (c (calculateBeamStrength i)))) (Fin 0)"
    using assms(8) by (simp add: EPSILON_C_MAX_def)
  from this cz
  have "is_inf (jsdiv (jsmul EPSILON_C_MAX (jssub (d i) (c (calculateBeamStrength i))))
                      (c (calculateBeamStrength i)))"
    by (rule jsdiv_pos_zero)
  then show ?thesis
    using epsilonT_field[of i] by simp
qed

lemma zero_steel_phiMn:
  assumes "is_zero (As i)" "jsgt (d i) (Fin 0)" "is_finite (d i)" "jsgt (fc i) (Fin 0)"
    "jsgt (fy i) (Fin 0)" "is_finite (fy i)"
    "jsgt (jsmul (jsmul (Fin 0.85) (fc i)) (b i)) (Fin 0)"
    "jsgt (jsmul (Fin 0.003) (d i)) (Fin 0)"
  shows "is_zero (phiMn (calculateBeamStrength i))"
proof -
  have "\<not> is_nan (epsilonT (calculateBeamStrength i))"
    using zero_steel_epsilonT[OF assms] by (cases "epsilonT (calculateBeamStrength i)") simp_all
  then obtain p where "calculatePhi (epsilonT (calculateBeamStrength i)) = Fin p"
    using calculatePhi_range by blast
  then have "phi (calculateBeamStrength i) = Fin p"
    by (simp add: phi_field)
  then show ?thesis
    using zero_steel_Mn[OF assms(1,2,3,5,6,7)] by (simp add: phiMn_field jsmul_Fin_zero)
qed

lemma zero_steel_invalid:
  assumes "is_zero (As i)"
  shows "\<not> isValid (calculateBeamStrength i)"
proof -
  have "\<not> jsgt (As i) (Fin 0)"
    using assms by (cases "As i") (simp_all add: jsgt_def jslt_def)
  then show ?thesis
    by (simp add: isValid_field)
qed

text \<open>
  The product hypotheses cannot be dropped: where a computed product is a zero, \<open>rho\<close>,
  \<open>a\<close> or \<open>epsilonT\<close> is \<open>0 / 0\<close>, not-a-number.
\<close>

lemma jsdiv_zero_zero: "is_zero x \<Longrightarrow> is_zero z \<Longrightarrow> jsdiv x z = NaN"
  by (cases x; cases z) (auto simp: jsdiv_def)

lemma zero_product_rho:
  assumes "is_zero (As i)" "is_zero (jsmul (b i) (d i))"
  shows "rho (calculateBeamStrength i) = NaN"
  using assms by (simp add: rho_field jsdiv_zero_zero)

lemma zero_product_a:
  assumes "is_zero (As i)" "jsgt (fy i) (Fin 0)" "is_finite (fy i)"
    "is_zero (jsmul (jsmul (Fin 0.85) (fc i)) (b i))"
  shows "a (calculateBeamStrength i) = NaN"
  using zero_steel_force[OF assms(1,2,3)] assms(4) by (simp add: a_field jsdiv_zero_zero)

lemma zero_product_phiMn:
  assumes "is_zero (As i)" "is_finite (d i)" "jsgt (fc i) (Fin 0)"
    "jsgt (fy i) (Fin 0)" "is_finite (fy i)"
    "jsgt (jsmul (jsmul (Fin 0.85) (fc i)) (b i)) (Fin 0)"
    "is_zero (jsmul (Fin 0.003) (d i))"
  shows "phiMn (calculateBeamStrength i) = NaN"
proof -
  have cz: "is_zero (c (calculateBeamStrength i))"
    using zero_steel_a[OF assms(1,4,5,6)] calculateBeta1_pos[OF assms(3)]
    by (simp add: c_field jsdiv_zero_pos)
  have "is_zero (jsmul (Fin 0.003) (jssub (d i) (c (calculateBeamStrength i))))"
  proof (cases "d i")
    case (Fin r)
    then have "jssub (d i) (c (calculateBeamStrength i)) = d i"
      using cz by (simp add: jssub_Fin_zero)
    then show ?thesis
      using assms(7) by simp
  next
    case NegZero
    then have "is_zero (jssub (d i) (c (calculateBeamStrength i)))"
      using cz by (cases "c (calculateBeamStrength i)") (auto simp: jssub_def jsadd_def)
    then show ?thesis
      by (rule jsmul_Fin_zero)
  qed (use assms(2) in simp_all)
  from this cz
  have "jsdiv (jsmul (Fin 0.003) (jssub (d i) (c (calculateBeamStrength i))))
              (c (calculateBeamStrength i)) = NaN"
    by (rule jsdiv_zero_zero)
  then have "epsilonT (calculateBeamStrength i) = NaN"
    using epsilonT_field[of i] by (simp add: EPSILON_C_MAX_def)
  then have "phi (calculateBeamStrength i) = NaN"
    by (simp add: phi_field calculatePhi_NaN)
  then show ?thesis
    by (simp add: phiMn_field jsmul_def)
qed

text \<open>
  Claim C10, amended. For every input with \<open>As = 0\<close>, \<open>b > 0\<close>, \<open>d > 0\<close>,
  \<open>fc > 0\<close>, \<open>fy > 0\<close>, finite \<open>d\<close> and \<open>fy\<close>, and whose products \<open>b * d\<close>,
  \<open>0.85 * fc * b\<close> and \<open>0.003 * d\<close>, as the function computes them, are greater than
  zero, the result has \<open>rho = 0\<close>, \<open>a = 0\<close>, \<open>Mn = 0\<close>, \<open>phiMn = 0\<close> (each a zero of
  either sign) and \<open>isValid = false\<close>.
\<close>

theorem C10_zero_steel:
  assumes "is_zero (As i)" "jsgt (b i) (Fin 0)" "jsgt (d i) (Fin 0)" "jsgt (fc i) (Fin 0)"
    "jsgt (fy i) (Fin 0)" "is_finite (d i)" "is_finite (fy i)"
    "jsgt (jsmul (b i) (d i)) (Fin 0)"
    "jsgt (jsmul (jsmul (Fin 0.85) (fc i)) (b i)) (Fin 0)"
    "jsgt (jsmul (Fin 0.003) (d i)) (Fin 0)"
  shows "is_zero (rho (calculateBeamStrength i)) \<and>
         is_zero (a (calculateBeamStrength i)) \<and>
         is_zero (Mn (calculateBeamStrength i)) \<and>
         is_zero (phiMn (calculateBeamStrength i)) \<and>
         \<not> isValid (calculateBeamStrength i)"
  using zero_steel_rho[OF assms(1,8)] zero_steel_a[OF assms(1,5,7,9)]
    zero_steel_Mn[OF assms(1,3,6,5,7,9)] zero_steel_phiMn[OF assms(1,3,6,4,5,7,9,10)]
    zero_steel_invalid[OF assms(1)]
  by blast

theorem C10_zero_steel_witness:
  "is_zero (As noSteel) \<and> jsgt (b noSteel) (Fin 0) \<and> jsgt (d noSteel) (Fin 0) \<and>
   jsgt (fc noSteel) (Fin 0) \<and> jsgt (fy noSteel) (Fin 0) \<and>
   is_finite (d noSteel) \<and> is_finite (fy noSteel) \<and>
   jsgt (jsmul (b noSteel) (d noSteel)) (Fin 0) \<and>
   jsgt (jsmul (jsmul (Fin 0.85) (fc noSteel)) (b noSteel)) (Fin 0) \<and>
   jsgt (jsmul (Fin 0.003) (d noSteel)) (Fin 0) \<and>
   is_zero (rho (calculateBeamStrength noSteel)) \<and>
   is_zero (a (calculateBeamStrength noSteel)) \<and>
   is_zero (Mn (calculateBeamStrength noSteel)) \<and>
   is_zero (phiMn (calculateBeamStrength noSteel)) \<and>
   \<not> isValid (calculateBeamStrength noSteel)"
proof -
  have h: "is_zero (As noSteel)" "jsgt (b noSteel) (Fin 0)" "jsgt (d noSteel) (Fin 0)"
    "jsgt (fc noSteel) (Fin 0)" "jsgt (fy noSteel) (Fin 0)"
    "is_finite (d noSteel)" "is_finite (fy noSteel)"
    "jsgt (jsmul (b noSteel) (d noSteel)) (Fin 0)"
    "jsgt (jsmul (jsmul (Fin 0.85) (fc noSteel)) (b noSteel)) (Fin 0)"
    "jsgt (jsmul (Fin 0.003) (d noSteel)) (Fin 0)"
    by (simp_all add: noSteel_def js_Fin)
  from C10_zero_steel[OF h] h show ?thesis by blast
qed

text \<open>
  With \<open>b > 0\<close>, \<open>d > 0\<close>, \<open>fc > 0\<close> and \<open>fy > 0\<close> alone the statement fails:
  \<open>0 * Infinity\<close> is not-a-number, in \<open>a\<close> for an infinite yield strength and in
  \<open>Mn\<close> for an infinite depth.
\<close>

theorem C10_zero_steel_counterexample:
  "is_zero (As unboundedYield) \<and> jsgt (b unboundedYield) (Fin 0) \<and>
   jsgt (d unboundedYield) (Fin 0) \<and> jsgt (fc unboundedYield) (Fin 0) \<and>
   jsgt (fy unboundedYield) (Fin 0) \<and>
   \<not> is_zero (a (calculateBeamStrength unboundedYield)) \<and>
   is_zero (As unboundedDepth) \<and> jsgt (b unboundedDepth) (Fin 0) \<and>
   jsgt (d unboundedDepth) (Fin 0) \<and> jsgt (fc unboundedDepth) (Fin 0) \<and>
   jsgt (fy unboundedDepth) (Fin 0) \<and>
   \<not> is_zero (Mn (calculateBeamStrength unboundedDepth))"
proof -
  have "a (calculateBeamStrength unboundedYield) = NaN"
    by (simp add: unboundedYield_def a_field jsmul_def jsdiv_def)
  moreover have "a (calculateBeamStrength unboundedDepth) = Fin 0"
    by (simp add: unboundedDepth_def a_field js_Fin zero_of_def)
  then have "Mn (calculateBeamStrength unboundedDepth) = NaN"
    by (simp add: Mn_field)
       (simp add: unboundedDepth_def js_Fin zero_of_def jssub_def jsadd_def jsmul_def jsdiv_def)
  ultimately show ?thesis
    by (simp add: unboundedYield_def unboundedDepth_def jsgt_def jslt_def)
qed

end
